theory Spec2Isabelle
  imports Main "HOL-Library.Sublist"
begin

section \<open>The conversion script \<open>convert_bge_to_onnx.py\<close>\<close>

text \<open>
  The script is one straight-line function, \<open>download_and_convert\<close>, and a
  \<open>__main__\<close> block that runs it inside \<open>try ... except Exception\<close>. Every
  statement of the function is either a \<open>print\<close> or a call into a library
  (pathlib, transformers, torch.onnx, onnxruntime). The model keeps the
  statements in source order with the arguments the source passes, and runs
  them against a world whose library behaviour is a parameter: any library
  call may raise, and may change the file system in any way.
\<close>

subsection \<open>Paths (pathlib, POSIX flavour)\<close>

fun split_on :: "char \<Rightarrow> string \<Rightarrow> string list" where
  "split_on d [] = [[]]"
| "split_on d (c # cs) =
     (if c = d then [] # split_on d cs
      else (case split_on d cs of
              [] \<Rightarrow> [[c]]
            | w # ws \<Rightarrow> (c # w) # ws))"

datatype path = Path (parts: "string list")

text \<open>\<open>Path(s)\<close> for a relative string: the non-empty segments between slashes.\<close>

definition path_of :: "string \<Rightarrow> path" where
  "path_of s = Path (filter (\<lambda>seg. seg \<noteq> []) (split_on (CHR ''/'') s))"

text \<open>\<open>p / s\<close> for a relative segment string \<open>s\<close>.\<close>

definition path_div :: "path \<Rightarrow> string \<Rightarrow> path" where
  "path_div p s = Path (parts p @ parts (path_of s))"

fun join_parts :: "string list \<Rightarrow> string" where
  "join_parts [] = ''.''"
| "join_parts [x] = x"
| "join_parts (x # y # ys) = x @ ''/'' @ join_parts (y # ys)"

text \<open>\<open>str(p)\<close>, \<open>p.name\<close> and \<open>p.parent\<close>.\<close>

definition path_str :: "path \<Rightarrow> string" where
  "path_str p = join_parts (parts p)"

definition path_name :: "path \<Rightarrow> string" where
  "path_name p = (case parts p of [] \<Rightarrow> [] | x # xs \<Rightarrow> last (x # xs))"

definition path_parent :: "path \<Rightarrow> path" where
  "path_parent p = Path (butlast (parts p))"

subsection \<open>Exceptions, the file system and the world\<close>

text \<open>
  An exception is its class name and its message; \<open>str(e)\<close> is the message.
  The type stands for instances of Python's \<open>Exception\<close>, the class the
  \<open>__main__\<close> block catches and the one library failures (network, disk,
  serialisation, unsupported operator) belong to.
\<close>

datatype exn = Exn (exn_class: string) (exn_msg: string)

datatype node = Dir | File

record 'w world =
  fs :: "path \<rightharpoonup> node"
  remote :: 'w

text \<open>
  \<open>Path.mkdir(exist_ok=...)\<close> with the default \<open>parents=False\<close>, on paths
  relative to the working directory (the empty path, which exists): a missing
  parent raises \<open>FileNotFoundError\<close>; an existing entry raises
  \<open>FileExistsError\<close> unless \<open>exist_ok\<close> is set and the entry is a directory.
\<close>

definition parent_exists :: "(path \<rightharpoonup> node) \<Rightarrow> path \<Rightarrow> bool" where
  "parent_exists f p =
     (parts (path_parent p) = [] \<or> f (path_parent p) = Some Dir)"

definition path_mkdir :: "path \<Rightarrow> bool \<Rightarrow> 'w world \<Rightarrow> exn + 'w world" where
  "path_mkdir p exist_ok w =
     (case fs w p of
        None \<Rightarrow>
          (if parent_exists (fs w) p then Inr (w\<lparr>fs := (fs w)(p \<mapsto> Dir)\<rparr>)
           else Inl (Exn ''FileNotFoundError''
                      (''[Errno 2] No such file or directory: '' @ path_str p)))
      | Some Dir \<Rightarrow>
          (if exist_ok then Inr w
           else Inl (Exn ''FileExistsError''
                      (''[Errno 17] File exists: '' @ path_str p)))
      | Some File \<Rightarrow>
          Inl (Exn ''FileExistsError''
                (''[Errno 17] File exists: '' @ path_str p)))"

subsection \<open>Library calls\<close>

datatype QuantType = QInt8 | QUInt8

text \<open>
  The keyword arguments of the \<open>torch.onnx.export\<close> call. \<open>args\<close> lists the
  keys of the tokenizer's result \<open>inputs\<close> that form the example input tuple;
  a dictionary literal is an association list in source order.
\<close>

record export_args =
  args :: "string list"
  f :: string
  input_names :: "string list"
  output_names :: "string list"
  dynamic_axes :: "(string \<times> (nat \<times> string) list) list"
  opset_version :: nat
  do_constant_folding :: bool

text \<open>The keyword arguments of the call \<open>tokenizer(dummy_text, ...)\<close>.\<close>

record tokenizer_args =
  text_arg :: string
  return_tensors :: string
  padding :: bool
  truncation :: bool
  max_length :: nat

text \<open>
  The arguments of the \<open>quantize_dynamic\<close> call: the first two are positional
  (the function's \<open>model_input\<close> and \<open>model_output\<close>), the third is the one
  keyword argument the source passes.
\<close>

record quantize_args =
  model_input :: string
  model_output :: string
  weight_type :: QuantType

datatype ext_call =
    Path_mkdir path bool
  | AutoTokenizer_from_pretrained string
  | AutoModel_from_pretrained string
  | Tokenizer_save_pretrained path
  | Model_save_pretrained path
  | Model_eval
  | Tokenizer_call tokenizer_args
  | Torch_onnx_export export_args
  | Quantize_dynamic quantize_args

text \<open>
  The libraries are a parameter: a call either raises or returns with a new
  world. \<open>Path.mkdir\<close> is the one call with a fixed meaning.
\<close>

type_synonym 'w lib = "ext_call \<Rightarrow> 'w world \<Rightarrow> exn + 'w world"

fun perform :: "'w lib \<Rightarrow> ext_call \<Rightarrow> 'w world \<Rightarrow> exn + 'w world" where
  "perform lib (Path_mkdir p exist_ok) w = path_mkdir p exist_ok w"
| "perform lib c w = lib c w"

subsection \<open>Statements and their execution\<close>

text \<open>
  The state of a run: the world, the lines the script itself printed to
  standard output (one entry per \<open>print\<close> call), the tracebacks written to
  standard error, and the library calls made so far, in order.
\<close>

datatype stmt = Print string | Call ext_call

record 'w state =
  world :: "'w world"
  stdout :: "string list"
  stderr :: "exn list"
  calls :: "ext_call list"

definition initial_state :: "'w world \<Rightarrow> 'w state" where
  "initial_state w = \<lparr>world = w, stdout = [], stderr = [], calls = []\<rparr>"

definition print_line :: "string \<Rightarrow> 'w state \<Rightarrow> 'w state" where
  "print_line x s = s\<lparr>stdout := stdout s @ [x]\<rparr>"

text \<open>\<open>traceback.print_exc()\<close>: the traceback of the exception being handled.\<close>

definition print_exc :: "exn \<Rightarrow> 'w state \<Rightarrow> 'w state" where
  "print_exc e s = s\<lparr>stderr := stderr s @ [e]\<rparr>"

text \<open>
  A statement list runs in order and stops at the first call that raises;
  the result is the raised exception, if any, and the state reached.
\<close>

fun exec :: "'w lib \<Rightarrow> stmt list \<Rightarrow> 'w state \<Rightarrow> exn option \<times> 'w state" where
  "exec lib [] s = (None, s)"
| "exec lib (Print x # rest) s = exec lib rest (print_line x s)"
| "exec lib (Call c # rest) s =
     (case perform lib c (world s) of
        Inl e \<Rightarrow> (Some e, s\<lparr>calls := calls s @ [c]\<rparr>)
      | Inr w' \<Rightarrow> exec lib rest (s\<lparr>world := w', calls := calls s @ [c]\<rparr>))"

subsection \<open>\<open>download_and_convert\<close>\<close>

definition model_name :: string where
  "model_name = ''BAAI/bge-small-en-v1.5''"

definition output_dir :: path where
  "output_dir = path_of ''bge-small-onnx''"

definition dummy_text :: string where
  "dummy_text = ''This is a sample sentence for conversion.''"

definition onnx_path :: path where
  "onnx_path = path_div output_dir ''model.onnx''"

definition quantized_path :: path where
  "quantized_path = path_div output_dir ''bge-small-en-v1.5-quantized.onnx''"

definition inputs_call :: tokenizer_args where
  "inputs_call =
     \<lparr>text_arg = dummy_text, return_tensors = ''pt'', padding = True,
      truncation = True, max_length = 512\<rparr>"

definition export_call :: export_args where
  "export_call =
     \<lparr>args = [''input_ids'', ''attention_mask''],
      f = path_str onnx_path,
      input_names = [''input_ids'', ''attention_mask''],
      output_names = [''last_hidden_state''],
      dynamic_axes =
        [(''input_ids'', [(0, ''batch_size''), (1, ''sequence_length'')]),
         (''attention_mask'', [(0, ''batch_size''), (1, ''sequence_length'')]),
         (''last_hidden_state'', [(0, ''batch_size''), (1, ''sequence_length'')])],
      opset_version = 14,
      do_constant_folding = True\<rparr>"

definition quantize_call :: quantize_args where
  "quantize_call =
     \<lparr>model_input = path_str onnx_path, model_output = path_str quantized_path,
      weight_type = QUInt8\<rparr>"

text \<open>The body, statement by statement (source lines 14 to 64).\<close>

definition download_and_convert_body :: "stmt list" where
  "download_and_convert_body =
     [Call (Path_mkdir output_dir True),
      Print (''Downloading '' @ model_name @ '' from Hugging Face...''),
      Call (AutoTokenizer_from_pretrained model_name),
      Call (AutoModel_from_pretrained model_name),
      Print ''Saving model and tokenizer locally...'',
      Call (Tokenizer_save_pretrained output_dir),
      Call (Model_save_pretrained output_dir),
      Print ''Converting to ONNX format...'',
      Call Model_eval,
      Call (Tokenizer_call inputs_call),
      Call (Torch_onnx_export export_call),
      Print (''Model exported to '' @ path_str onnx_path),
      Print ''Quantizing model for mobile deployment...'',
      Call (Quantize_dynamic quantize_call),
      Print (''Quantized model saved to '' @ path_str quantized_path),
      Print (CHR 0x0A # ''Model files:''),
      Print (''  - Full precision: '' @ path_str onnx_path),
      Print (''  - Quantized: '' @ path_str quantized_path),
      Print (CHR 0x0A # ''Recommended for Android: '' @ path_name quantized_path),
      Print (CHR 0x0A # ''Next step: Copy '' @ path_name quantized_path
               @ '' to app/src/main/assets/bge-small-en-v1.5.onnx'')]"

text \<open>The function returns \<open>quantized_path\<close>, or propagates the exception.\<close>

definition download_and_convert :: "'w lib \<Rightarrow> 'w state \<Rightarrow> (exn + path) \<times> 'w state" where
  "download_and_convert lib s =
     (case exec lib download_and_convert_body s of
        (None, s') \<Rightarrow> (Inr quantized_path, s')
      | (Some e, s') \<Rightarrow> (Inl e, s'))"

subsection \<open>The \<open>__main__\<close> block and the interpreter around it\<close>

text \<open>The two marks are the UTF-8 bytes of U+2705 and U+274C.\<close>

definition success_banner :: string where
  "success_banner =
     CHR 0x0A # CHR 0xE2 # CHR 0x9C # CHR 0x85 # '' Conversion completed successfully!''"

definition error_message :: "exn \<Rightarrow> string" where
  "error_message e =
     CHR 0x0A # CHR 0xE2 # CHR 0x9D # CHR 0x8C # '' Error during conversion: '' @ exn_msg e"

text \<open>
  \<open>try: ... except Exception as e: ...\<close>: the handler prints and returns;
  nothing is raised again, so the block itself never propagates an exception.
\<close>

definition main_block :: "'w lib \<Rightarrow> 'w state \<Rightarrow> (exn + unit) \<times> 'w state" where
  "main_block lib s =
     (case download_and_convert lib s of
        (Inr model_path, s1) \<Rightarrow> (Inr (), print_line success_banner s1)
      | (Inl e, s1) \<Rightarrow> (Inr (), print_exc e (print_line (error_message e) s1)))"

text \<open>
  The interpreter running a script: when the top-level code finishes, the
  exit status is 0; when an exception propagates out of it, the interpreter
  prints the traceback and the exit status is 1.
\<close>

definition run_script ::
  "('w state \<Rightarrow> (exn + unit) \<times> 'w state) \<Rightarrow> 'w state \<Rightarrow> nat \<times> 'w state" where
  "run_script prog s =
     (case prog s of
        (Inr u, s') \<Rightarrow> (0, s')
      | (Inl e, s') \<Rightarrow> (1, print_exc e s'))"

definition run :: "'w lib \<Rightarrow> 'w world \<Rightarrow> nat \<times> 'w state" where
  "run lib w = run_script (main_block lib) (initial_state w)"

subsection \<open>Reading a statement list and a model identifier\<close>

text \<open>The calls and the printed lines of a statement list, in order.\<close>

fun calls_of :: "stmt list \<Rightarrow> ext_call list" where
  "calls_of [] = []"
| "calls_of (Print x # rest) = calls_of rest"
| "calls_of (Call c # rest) = c # calls_of rest"

fun prints_of :: "stmt list \<Rightarrow> string list" where
  "prints_of [] = []"
| "prints_of (Print x # rest) = x # prints_of rest"
| "prints_of (Call c # rest) = prints_of rest"

text \<open>The arguments of the tokenizer, export and quantize calls in a call list.\<close>

fun tokenizer_calls :: "ext_call list \<Rightarrow> tokenizer_args list" where
  "tokenizer_calls [] = []"
| "tokenizer_calls (Tokenizer_call a # cs) = a # tokenizer_calls cs"
| "tokenizer_calls (c # cs) = tokenizer_calls cs"

fun export_calls :: "ext_call list \<Rightarrow> export_args list" where
  "export_calls [] = []"
| "export_calls (Torch_onnx_export x # cs) = x # export_calls cs"
| "export_calls (c # cs) = export_calls cs"

fun quantize_calls :: "ext_call list \<Rightarrow> quantize_args list" where
  "quantize_calls [] = []"
| "quantize_calls (Quantize_dynamic q # cs) = q # quantize_calls cs"
| "quantize_calls (c # cs) = quantize_calls cs"

fun is_mkdir :: "ext_call \<Rightarrow> bool" where
  "is_mkdir (Path_mkdir p exist_ok) = True"
| "is_mkdir c = False"

text \<open>No statement of the list is a \<open>Path.mkdir\<close> call.\<close>

fun no_mkdir :: "stmt list \<Rightarrow> bool" where
  "no_mkdir [] = True"
| "no_mkdir (Print x # rest) = no_mkdir rest"
| "no_mkdir (Call c # rest) = (\<not> is_mkdir c \<and> no_mkdir rest)"

text \<open>
  The places where a statement list can stop early: each call of the list,
  with the statements before it.
\<close>

fun stops :: "stmt list \<Rightarrow> (stmt list \<times> ext_call) list" where
  "stops [] = []"
| "stops (Print x # rest) = map (\<lambda>(pre, c). (Print x # pre, c)) (stops rest)"
| "stops (Call c # rest) = ([], c) # map (\<lambda>(pre, c'). (Call c # pre, c')) (stops rest)"

text \<open>
  A registry identifier has the form \<open>organisation/repository\<close>; the
  repository name is its last segment.
\<close>

definition repository_name :: "string \<Rightarrow> string" where
  "repository_name ident = last (split_on (CHR ''/'') ident)"

subsection \<open>Sample libraries and worlds\<close>

text \<open>
  A library in which every call succeeds: saving writes a file into the
  given directory, exporting and quantizing write their output file.
\<close>

fun lib_ok :: "unit lib" where
  "lib_ok (Tokenizer_save_pretrained d) w =
     Inr (w\<lparr>fs := (fs w)(path_div d ''tokenizer.json'' \<mapsto> File)\<rparr>)"
| "lib_ok (Model_save_pretrained d) w =
     Inr (w\<lparr>fs := (fs w)(path_div d ''model.safetensors'' \<mapsto> File)\<rparr>)"
| "lib_ok (Torch_onnx_export x) w =
     Inr (w\<lparr>fs := (fs w)(path_of (f x) \<mapsto> File)\<rparr>)"
| "lib_ok (Quantize_dynamic q) w =
     Inr (w\<lparr>fs := (fs w)(path_of (model_output q) \<mapsto> File)\<rparr>)"
| "lib_ok c w = Inr w"

text \<open>The same library without a network: fetching the tokenizer raises.\<close>

definition offline_error :: exn where
  "offline_error = Exn ''OSError'' ''cannot connect to huggingface.co''"

fun lib_offline :: "unit lib" where
  "lib_offline (AutoTokenizer_from_pretrained n) w = Inl offline_error"
| "lib_offline c w = lib_ok c w"

text \<open>An empty working directory, and one left behind by an earlier run.\<close>

definition fresh_world :: "unit world" where
  "fresh_world = \<lparr>fs = Map.empty, remote = ()\<rparr>"

definition populated_world :: "unit world" where
  "populated_world =
     \<lparr>fs = [output_dir \<mapsto> Dir, onnx_path \<mapsto> File, quantized_path \<mapsto> File],
      remote = ()\<rparr>"

text \<open>Three sample runs of \<open>download_and_convert\<close>.\<close>

definition fresh_run :: "(exn + path) \<times> unit state" where
  "fresh_run = download_and_convert lib_ok (initial_state fresh_world)"

definition second_run :: "(exn + path) \<times> unit state" where
  "second_run = download_and_convert lib_ok (initial_state populated_world)"

definition offline_run :: "(exn + path) \<times> unit state" where
  "offline_run = download_and_convert lib_offline (initial_state fresh_world)"

section \<open>Properties\<close>

subsection \<open>Execution of statement lists\<close>

lemma calls_of_append: "calls_of (xs @ ys) = calls_of xs @ calls_of ys"
  by (induction xs rule: calls_of.induct) simp_all

lemma prints_of_append: "prints_of (xs @ ys) = prints_of xs @ prints_of ys"
  by (induction xs rule: prints_of.induct) simp_all

text \<open>A list that runs to its end made all its calls and printed all its lines.\<close>

lemma exec_success:
  "exec lib b s = (None, s') \<Longrightarrow>
     calls s' = calls s @ calls_of b \<and> stdout s' = stdout s @ prints_of b \<and>
     stderr s' = stderr s"
proof (induction lib b s rule: exec.induct)
  case (1 lib s)
  then show ?case by simp
next
  case (2 lib x rest s)
  then show ?case by (simp add: print_line_def)
next
  case (3 lib c rest s)
  show ?case
  proof (cases "perform lib c (world s)")
    case (Inl e)
    with 3(2) show ?thesis by simp
  next
    case (Inr w')
    with 3(2) have "exec lib rest (s\<lparr>world := w', calls := calls s @ [c]\<rparr>) = (None, s')"
      by simp
    from 3(1)[OF Inr this] show ?thesis by simp
  qed
qed

text \<open>
  A list that raises stopped at a call: the statements before it ran to
  their end, the call raised in the world they left, and nothing ran after.
\<close>

lemma exec_failure:
  "exec lib b s = (Some e, s') \<Longrightarrow>
     \<exists>pre c post s1. b = pre @ Call c # post \<and> exec lib pre s = (None, s1) \<and>
        perform lib c (world s1) = Inl e \<and> s' = s1\<lparr>calls := calls s1 @ [c]\<rparr>"
proof (induction lib b s rule: exec.induct)
  case (1 lib s)
  then show ?case by simp
next
  case (2 lib x rest s)
  then obtain pre c post s1 where
    h: "rest = pre @ Call c # post" "exec lib pre (print_line x s) = (None, s1)"
       "perform lib c (world s1) = Inl e" "s' = s1\<lparr>calls := calls s1 @ [c]\<rparr>"
    by auto
  have "Print x # rest = (Print x # pre) @ Call c # post" using h(1) by simp
  moreover have "exec lib (Print x # pre) s = (None, s1)" using h(2) by simp
  ultimately show ?case using h(3,4) by blast
next
  case (3 lib c rest s)
  show ?case
  proof (cases "perform lib c (world s)")
    case (Inl e')
    with 3(2) have "e' = e" "s' = s\<lparr>calls := calls s @ [c]\<rparr>" by simp_all
    moreover have "Call c # rest = [] @ Call c # rest" by simp
    moreover have "exec lib [] s = (None, s)" by simp
    ultimately show ?thesis using Inl by blast
  next
    case (Inr w')
    with 3(2) have "exec lib rest (s\<lparr>world := w', calls := calls s @ [c]\<rparr>) = (Some e, s')"
      by simp
    from 3(1)[OF Inr this] obtain pre c' post s1 where
      h: "rest = pre @ Call c' # post"
         "exec lib pre (s\<lparr>world := w', calls := calls s @ [c]\<rparr>) = (None, s1)"
         "perform lib c' (world s1) = Inl e" "s' = s1\<lparr>calls := calls s1 @ [c']\<rparr>"
      by auto
    have "Call c # rest = (Call c # pre) @ Call c' # post" using h(1) by simp
    moreover have "exec lib (Call c # pre) s = (None, s1)" using h(2) Inr by simp
    ultimately show ?thesis using h(3,4) by blast
  qed
qed

text \<open>Whatever happens, the calls made are an initial part of the list's calls.\<close>

lemma exec_calls_prefix:
  "prefix (calls (snd (exec lib b s))) (calls s @ calls_of b)"
proof (induction lib b s rule: exec.induct)
  case (1 lib s)
  then show ?case by simp
next
  case (2 lib x rest s)
  then show ?case by (simp add: print_line_def)
next
  case (3 lib c rest s)
  show ?case
  proof (cases "perform lib c (world s)")
    case (Inl e)
    then show ?thesis by simp
  next
    case (Inr w')
    from 3[OF Inr] show ?thesis using Inr by simp
  qed
qed

subsection \<open>Runs of \<open>download_and_convert\<close>\<close>

lemmas path_defs = output_dir_def onnx_path_def quantized_path_def path_of_def path_div_def
  path_str_def path_name_def path_parent_def

lemma body_calls:
  "calls_of download_and_convert_body =
     [Path_mkdir output_dir True,
      AutoTokenizer_from_pretrained model_name,
      AutoModel_from_pretrained model_name,
      Tokenizer_save_pretrained output_dir,
      Model_save_pretrained output_dir,
      Model_eval,
      Tokenizer_call inputs_call,
      Torch_onnx_export export_call,
      Quantize_dynamic quantize_call]"
  by (simp add: download_and_convert_body_def)

lemma body_prints:
  "prints_of download_and_convert_body =
     [''Downloading BAAI/bge-small-en-v1.5 from Hugging Face...'',
      ''Saving model and tokenizer locally...'',
      ''Converting to ONNX format...'',
      ''Model exported to bge-small-onnx/model.onnx'',
      ''Quantizing model for mobile deployment...'',
      ''Quantized model saved to bge-small-onnx/bge-small-en-v1.5-quantized.onnx'',
      CHR 0x0A # ''Model files:'',
      ''  - Full precision: bge-small-onnx/model.onnx'',
      ''  - Quantized: bge-small-onnx/bge-small-en-v1.5-quantized.onnx'',
      CHR 0x0A # ''Recommended for Android: bge-small-en-v1.5-quantized.onnx'',
      CHR 0x0A # ''Next step: Copy bge-small-en-v1.5-quantized.onnx to app/src/main/assets/bge-small-en-v1.5.onnx'']"
  by (simp add: download_and_convert_body_def model_name_def path_defs)

lemma stops_complete: "b = pre @ Call c # post \<Longrightarrow> (pre, c) \<in> set (stops b)"
proof (induction pre arbitrary: b)
  case Nil
  then show ?case by simp
next
  case (Cons a pre)
  then obtain b' where b: "b = a # b'" "b' = pre @ Call c # post" by simp
  from Cons.IH[OF b(2)] have "(pre, c) \<in> set (stops b')" .
  then show ?case using b(1) by (cases a) force+
qed

lemma run_success:
  assumes "download_and_convert lib (initial_state w) = (Inr p, s')"
  shows "p = quantized_path \<and> calls s' = calls_of download_and_convert_body \<and>
         stdout s' = prints_of download_and_convert_body \<and> stderr s' = []"
proof -
  from assms have "exec lib download_and_convert_body (initial_state w) = (None, s')"
    "p = quantized_path"
    by (auto simp: download_and_convert_def split: prod.splits option.splits)
  with exec_success[of lib download_and_convert_body "initial_state w" s'] show ?thesis
    by (simp add: initial_state_def)
qed

lemma run_failure:
  assumes "download_and_convert lib (initial_state w) = (Inl e, s')"
  shows "\<exists>pre c. (pre, c) \<in> set (stops download_and_convert_body) \<and>
           calls s' = calls_of pre @ [c] \<and> stdout s' = prints_of pre \<and> stderr s' = []"
proof -
  from assms have "exec lib download_and_convert_body (initial_state w) = (Some e, s')"
    by (auto simp: download_and_convert_def split: prod.splits option.splits)
  from exec_failure[OF this] obtain pre c post s1 where
    h: "download_and_convert_body = pre @ Call c # post"
       "exec lib pre (initial_state w) = (None, s1)"
       "s' = s1\<lparr>calls := calls s1 @ [c]\<rparr>"
    by blast
  from exec_success[OF h(2)] h(3) have
    "calls s' = calls_of pre @ [c] \<and> stdout s' = prints_of pre \<and> stderr s' = []"
    by (simp add: initial_state_def)
  with stops_complete[OF h(1)] show ?thesis by blast
qed

lemma run_calls_prefix:
  assumes "download_and_convert lib (initial_state w) = (r, s')"
  shows "prefix (calls s') (calls_of download_and_convert_body)"
proof -
  have "s' = snd (exec lib download_and_convert_body (initial_state w))"
    using assms by (auto simp: download_and_convert_def split: prod.splits option.splits)
  with exec_calls_prefix[of lib download_and_convert_body "initial_state w"] show ?thesis
    by (simp add: initial_state_def)
qed

lemma fresh_run_ok: "fst fresh_run = Inr quantized_path"
  by (simp add: fresh_run_def download_and_convert_def download_and_convert_body_def
      initial_state_def fresh_world_def print_line_def path_mkdir_def parent_exists_def
      path_defs split: prod.splits)

lemma second_run_ok: "fst second_run = Inr quantized_path"
  by (simp add: second_run_def download_and_convert_def download_and_convert_body_def
      initial_state_def populated_world_def print_line_def path_mkdir_def parent_exists_def
      path_defs split: prod.splits)

lemma offline_run_fails: "fst offline_run = Inl offline_error"
  by (simp add: offline_run_def download_and_convert_def download_and_convert_body_def
      initial_state_def fresh_world_def print_line_def path_mkdir_def parent_exists_def
      path_defs split: prod.splits)

lemma run_calls_cases:
  assumes "download_and_convert lib (initial_state w) = (r, s')"
  shows "calls s' \<in> set (prefixes (calls_of download_and_convert_body))"
  using run_calls_prefix[OF assms] by (simp add: in_set_prefixes)

lemma fresh_run_eq:
  "download_and_convert lib_ok (initial_state fresh_world) = (Inr quantized_path, snd fresh_run)"
  using fresh_run_ok by (simp add: fresh_run_def prod_eq_iff)

lemma hd_in_set_length_one: "length xs = 1 \<Longrightarrow> hd xs \<in> set xs"
  by (cases xs) simp_all

lemma second_run_eq:
  "download_and_convert lib_ok (initial_state populated_world) = (Inr quantized_path, snd second_run)"
  using second_run_ok by (simp add: second_run_def prod_eq_iff)

lemma offline_run_eq:
  "download_and_convert lib_offline (initial_state fresh_world) = (Inl offline_error, snd offline_run)"
  using offline_run_fails by (simp add: offline_run_def prod_eq_iff)

lemma body_stops_prints:
  "(pre, c) \<in> set (stops download_and_convert_body) \<Longrightarrow>
     set (prints_of pre) \<subseteq> set (take 5 (prints_of download_and_convert_body))"
  unfolding body_prints
  by (auto simp: download_and_convert_body_def model_name_def path_defs)

lemma fresh_run_stdout: "stdout (snd fresh_run) = prints_of download_and_convert_body"
  using run_success[OF fresh_run_eq] by simp

lemma perform_lib: "\<not> is_mkdir c \<Longrightarrow> perform lib c w = lib c w"
  by (cases c) simp_all

lemma exec_never_raises:
  assumes ok: "\<And>c v. \<exists>v'. lib c v = Inr v'"
  shows "no_mkdir b \<Longrightarrow> fst (exec lib b s) = None"
proof (induction b arbitrary: s)
  case Nil
  then show ?case by simp
next
  case (Cons a b)
  show ?case
  proof (cases a)
    case (Print x)
    with Cons show ?thesis by simp
  next
    case (Call c)
    with Cons.prems have nm: "\<not> is_mkdir c" "no_mkdir b" by simp_all
    from ok obtain v' where "lib c (world s) = Inr v'" by blast
    with nm(1) have "perform lib c (world s) = Inr v'" by (simp add: perform_lib)
    with Call Cons.IH[OF nm(2)] show ?thesis by simp
  qed
qed

lemma exec_calls_extend: "prefix (calls s) (calls (snd (exec lib b s)))"
proof (induction lib b s rule: exec.induct)
  case (1 lib s)
  then show ?case by simp
next
  case (2 lib x rest s)
  then show ?case by (simp add: print_line_def)
next
  case (3 lib c rest s)
  show ?case
  proof (cases "perform lib c (world s)")
    case (Inl e)
    then show ?thesis by simp
  next
    case (Inr w')
    from 3[OF Inr] have "prefix (calls s @ [c])
        (calls (snd (exec lib rest (s\<lparr>world := w', calls := calls s @ [c]\<rparr>))))"
      by simp
    then have "prefix (calls s)
        (calls (snd (exec lib rest (s\<lparr>world := w', calls := calls s @ [c]\<rparr>))))"
      using append_prefixD by blast
    with Inr show ?thesis by simp
  qed
qed

lemma mkdir_output_dir:
  assumes "fs w output_dir \<noteq> Some File"
  shows "perform lib (Path_mkdir output_dir True) w =
           Inr (if fs w output_dir = None then w\<lparr>fs := (fs w)(output_dir \<mapsto> Dir)\<rparr> else w)"
proof (cases "fs w output_dir")
  case None
  then show ?thesis
    by (simp add: path_mkdir_def parent_exists_def path_defs)
next
  case (Some n)
  with assms have "n = Dir" by (cases n) simp_all
  with Some show ?thesis by (simp add: path_mkdir_def)
qed

lemma body_unfold:
  "download_and_convert_body =
     Call (Path_mkdir output_dir True) #
     Print (''Downloading '' @ model_name @ '' from Hugging Face...'') #
     Call (AutoTokenizer_from_pretrained model_name) # drop 3 download_and_convert_body"
  by (simp add: download_and_convert_body_def)

lemma body_rest_no_mkdir: "no_mkdir (tl download_and_convert_body)"
  by (simp add: download_and_convert_body_def)

lemma download_and_convert_fst:
  "fst (download_and_convert lib s) =
     (case fst (exec lib download_and_convert_body s) of
        None \<Rightarrow> Inr quantized_path | Some e \<Rightarrow> Inl e)"
  by (simp add: download_and_convert_def split: prod.splits option.splits)

lemma download_and_convert_snd:
  "snd (download_and_convert lib s) = snd (exec lib download_and_convert_body s)"
  by (simp add: download_and_convert_def split: prod.splits option.splits)

lemma lib_ok_never_raises: "\<exists>v'. lib_ok c v = Inr v'"
  by (cases c) simp_all

lemma banner_not_in_body: "success_banner \<notin> set (prints_of download_and_convert_body)"
  unfolding body_prints by (simp add: success_banner_def)

lemma banner_not_error: "success_banner \<noteq> error_message e"
  by (simp add: success_banner_def error_message_def)

lemma prints_of_prefix_subset: "set (prints_of pre) \<subseteq> set (prints_of (pre @ post))"
  by (simp add: prints_of_append)

section \<open>The claims\<close>

text \<open>
  In every theorem below, \<open>download_and_convert lib (initial_state w) = (r, s')\<close>
  is a run of the function from a fresh process in the world \<open>w\<close> with the
  libraries \<open>lib\<close>: \<open>r\<close> is the returned path or the raised exception and
  \<open>s'\<close> the state when the function is left.
\<close>

subsection \<open>C9: format version and constant folding of the export\<close>

text \<open>
  C9. The export call uses the fixed graph-format version 14
  (\<open>opset_version=14\<close>) and enables constant folding
  (\<open>do_constant_folding=True\<close>): every export call a run makes carries both
  arguments, and a successful run makes exactly one export call.
\<close>

theorem export_opset_and_constant_folding:
  assumes "download_and_convert lib (initial_state w) = (r, s')"
  shows "(\<forall>x \<in> set (export_calls (calls s')). opset_version x = 14 \<and> do_constant_folding x) \<and>
         (\<forall>p. r = Inr p \<longrightarrow> length (export_calls (calls s')) = 1)"
proof -
  have "\<forall>x \<in> set (export_calls (calls s')). opset_version x = 14 \<and> do_constant_folding x"
    using run_calls_cases[OF assms] unfolding body_calls
    by (auto simp: export_call_def)
  moreover have "length (export_calls (calls s')) = 1" if "r = Inr p" for p
    using run_success[of lib w p s'] assms that by (simp add: body_calls)
  ultimately show ?thesis by blast
qed

theorem export_opset_and_constant_folding_witness:
  "fst fresh_run = Inr quantized_path \<and>
   length (export_calls (calls (snd fresh_run))) = 1 \<and>
   opset_version (hd (export_calls (calls (snd fresh_run)))) = 14 \<and>
   do_constant_folding (hd (export_calls (calls (snd fresh_run))))"
proof -
  have run: "download_and_convert lib_ok (initial_state fresh_world) =
               (Inr quantized_path, snd fresh_run)"
    using fresh_run_ok by (simp add: fresh_run_def prod_eq_iff)
  note th = export_opset_and_constant_folding[OF run]
  from th have len: "length (export_calls (calls (snd fresh_run))) = 1" by simp
  then have "hd (export_calls (calls (snd fresh_run))) \<in> set (export_calls (calls (snd fresh_run)))"
    by (cases "export_calls (calls (snd fresh_run))") simp_all
  with th len fresh_run_ok show ?thesis by blast
qed

subsection \<open>C3: dynamic axes of the named tensors\<close>

text \<open>
  C3. In the export call the inputs are named \<open>input_ids\<close> and
  \<open>attention_mask\<close> and the output \<open>last_hidden_state\<close>, and the
  \<open>dynamic_axes\<close> dictionary has exactly these three names as keys, each
  declaring exactly the axes 0 (batch) and 1 (sequence length) dynamic. This
  holds of every export call a run makes, and a successful run makes exactly
  one. (That the exporter then produces a graph accepting other shapes is the
  exporter's contract for \<open>dynamic_axes\<close>, outside this script.)
\<close>

theorem dynamic_axes_of_named_tensors:
  assumes "download_and_convert lib (initial_state w) = (r, s')"
  shows "(\<forall>x \<in> set (export_calls (calls s')).
            input_names x = [''input_ids'', ''attention_mask''] \<and>
            output_names x = [''last_hidden_state''] \<and>
            map (\<lambda>(name, axes). (name, map fst axes)) (dynamic_axes x) =
              [(''input_ids'', [0, 1]), (''attention_mask'', [0, 1]),
               (''last_hidden_state'', [0, 1])]) \<and>
         (\<forall>p. r = Inr p \<longrightarrow> length (export_calls (calls s')) = 1)"
proof -
  have "\<forall>x \<in> set (export_calls (calls s')).
            input_names x = [''input_ids'', ''attention_mask''] \<and>
            output_names x = [''last_hidden_state''] \<and>
            map (\<lambda>(name, axes). (name, map fst axes)) (dynamic_axes x) =
              [(''input_ids'', [0, 1]), (''attention_mask'', [0, 1]),
               (''last_hidden_state'', [0, 1])]"
    using run_calls_cases[OF assms] unfolding body_calls
    by (auto simp: export_call_def)
  moreover have "length (export_calls (calls s')) = 1" if "r = Inr p" for p
    using run_success[of lib w p s'] assms that by (simp add: body_calls)
  ultimately show ?thesis by blast
qed

theorem dynamic_axes_of_named_tensors_witness:
  "fst fresh_run = Inr quantized_path \<and>
   length (export_calls (calls (snd fresh_run))) = 1 \<and>
   map (\<lambda>(name, axes). (name, map fst axes))
     (dynamic_axes (hd (export_calls (calls (snd fresh_run))))) =
     [(''input_ids'', [0, 1]), (''attention_mask'', [0, 1]), (''last_hidden_state'', [0, 1])]"
proof -
  note th = dynamic_axes_of_named_tensors[OF fresh_run_eq]
  from th have len: "length (export_calls (calls (snd fresh_run))) = 1" by simp
  from hd_in_set_length_one[OF len] th len fresh_run_ok show ?thesis by blast
qed

subsection \<open>C2: names of the two graph files\<close>

text \<open>
  C2. The export call writes to a file named \<open>model.onnx\<close> in the output
  directory; the quantize call writes to a file in the same directory whose
  name is the repository name of the model identifier
  \<open>BAAI/bge-small-en-v1.5\<close> followed by \<open>-quantized\<close> and the extension
  \<open>.onnx\<close>. A successful run makes both calls, each once.
\<close>

theorem output_file_names:
  assumes "download_and_convert lib (initial_state w) = (r, s')"
  shows "(\<forall>x \<in> set (export_calls (calls s')).
            path_parent (path_of (f x)) = output_dir \<and>
            path_name (path_of (f x)) = ''model.onnx'') \<and>
         (\<forall>q \<in> set (quantize_calls (calls s')).
            path_parent (path_of (model_output q)) = output_dir \<and>
            path_name (path_of (model_output q)) =
              repository_name model_name @ ''-quantized'' @ ''.onnx'') \<and>
         model_name = ''BAAI/bge-small-en-v1.5'' \<and>
         (\<forall>p. r = Inr p \<longrightarrow>
            length (export_calls (calls s')) = 1 \<and> length (quantize_calls (calls s')) = 1)"
proof -
  have a: "\<forall>x \<in> set (export_calls (calls s')).
            path_parent (path_of (f x)) = output_dir \<and>
            path_name (path_of (f x)) = ''model.onnx''"
    using run_calls_cases[OF assms] unfolding body_calls
    by (auto simp: export_call_def path_defs)
  have b: "\<forall>q \<in> set (quantize_calls (calls s')).
            path_parent (path_of (model_output q)) = output_dir \<and>
            path_name (path_of (model_output q)) =
              repository_name model_name @ ''-quantized'' @ ''.onnx''"
    using run_calls_cases[OF assms] unfolding body_calls
    by (auto simp: quantize_call_def path_defs repository_name_def model_name_def)
  have c: "length (export_calls (calls s')) = 1 \<and> length (quantize_calls (calls s')) = 1"
    if "r = Inr p" for p
    using run_success[of lib w p s'] assms that by (simp add: body_calls)
  from a b c show ?thesis by (simp add: model_name_def)
qed

theorem output_file_names_witness:
  "fst fresh_run = Inr quantized_path \<and>
   length (quantize_calls (calls (snd fresh_run))) = 1 \<and>
   length (export_calls (calls (snd fresh_run))) = 1 \<and>
   path_name (path_of (model_output (hd (quantize_calls (calls (snd fresh_run)))))) =
     repository_name model_name @ ''-quantized'' @ ''.onnx'' \<and>
   path_parent (path_of (model_output (hd (quantize_calls (calls (snd fresh_run)))))) =
     output_dir \<and>
   path_name (path_of (f (hd (export_calls (calls (snd fresh_run)))))) = ''model.onnx''"
proof -
  note th = output_file_names[OF fresh_run_eq]
  from th have len: "length (quantize_calls (calls (snd fresh_run))) = 1"
    "length (export_calls (calls (snd fresh_run))) = 1" by simp_all
  from hd_in_set_length_one[OF len(1)] hd_in_set_length_one[OF len(2)] th len fresh_run_ok
  show ?thesis by blast
qed

subsection \<open>C4: the quantization call\<close>

text \<open>
  C4. Every quantize call a run makes is a \<open>quantize_dynamic\<close> call whose
  weight type is \<open>QUInt8\<close>, whose input is the path string the one export
  call before it wrote to, and whose output is another file in the directory
  of that export; the call carries these three arguments and nothing else
  (no calibration data). A successful run makes exactly one such call.
\<close>

theorem quantize_reads_export_writes_uint8:
  assumes "download_and_convert lib (initial_state w) = (r, s')"
  shows "(\<forall>q \<in> set (quantize_calls (calls s')).
            weight_type q = QUInt8 \<and>
            (\<exists>x. export_calls (calls s') = [x] \<and> model_input q = f x \<and>
                 path_parent (path_of (model_output q)) = path_parent (path_of (f x))) \<and>
            model_output q \<noteq> model_input q) \<and>
         (\<forall>p. r = Inr p \<longrightarrow> length (quantize_calls (calls s')) = 1)"
proof -
  have a: "\<forall>q \<in> set (quantize_calls (calls s')).
            weight_type q = QUInt8 \<and>
            (\<exists>x. export_calls (calls s') = [x] \<and> model_input q = f x \<and>
                 path_parent (path_of (model_output q)) = path_parent (path_of (f x))) \<and>
            model_output q \<noteq> model_input q"
    using run_calls_cases[OF assms] unfolding body_calls
    by (auto simp: quantize_call_def export_call_def path_defs)
  have c: "length (quantize_calls (calls s')) = 1" if "r = Inr p" for p
    using run_success[of lib w p s'] assms that by (simp add: body_calls)
  from a c show ?thesis by blast
qed

theorem quantize_reads_export_writes_uint8_witness:
  "fst fresh_run = Inr quantized_path \<and>
   length (quantize_calls (calls (snd fresh_run))) = 1 \<and>
   weight_type (hd (quantize_calls (calls (snd fresh_run)))) = QUInt8 \<and>
   (\<exists>x. export_calls (calls (snd fresh_run)) = [x] \<and>
        model_input (hd (quantize_calls (calls (snd fresh_run)))) = f x)"
proof -
  note th = quantize_reads_export_writes_uint8[OF fresh_run_eq]
  from th have len: "length (quantize_calls (calls (snd fresh_run))) = 1" by simp
  from hd_in_set_length_one[OF len] th len fresh_run_ok show ?thesis by blast
qed

subsection \<open>C8: the example input of the export\<close>

text \<open>
  C8. A run calls the tokenizer at most once, on the single fixed sentence,
  with \<open>padding=True\<close>, \<open>truncation=True\<close> and \<open>max_length=512\<close>; every
  export call is made after exactly one tokenizer call and takes its example
  input (\<open>input_ids\<close>, \<open>attention_mask\<close>) from that result. A successful
  run makes exactly one export call.
\<close>

theorem one_tokenized_example_input:
  assumes "download_and_convert lib (initial_state w) = (r, s')"
  shows "(\<forall>a \<in> set (tokenizer_calls (calls s')).
            text_arg a = ''This is a sample sentence for conversion.'' \<and>
            return_tensors a = ''pt'' \<and> padding a \<and> truncation a \<and> max_length a = 512) \<and>
         length (tokenizer_calls (calls s')) \<le> 1 \<and>
         (\<forall>x \<in> set (export_calls (calls s')).
            length (tokenizer_calls (calls s')) = 1 \<and>
            args x = [''input_ids'', ''attention_mask'']) \<and>
         (\<forall>p. r = Inr p \<longrightarrow> length (export_calls (calls s')) = 1)"
proof -
  have a: "\<forall>a \<in> set (tokenizer_calls (calls s')).
            text_arg a = ''This is a sample sentence for conversion.'' \<and>
            return_tensors a = ''pt'' \<and> padding a \<and> truncation a \<and> max_length a = 512"
    using run_calls_cases[OF assms] unfolding body_calls
    by (auto simp: inputs_call_def dummy_text_def)
  have b: "length (tokenizer_calls (calls s')) \<le> 1"
    using run_calls_cases[OF assms] unfolding body_calls by auto
  have c: "\<forall>x \<in> set (export_calls (calls s')).
            length (tokenizer_calls (calls s')) = 1 \<and>
            args x = [''input_ids'', ''attention_mask'']"
    using run_calls_cases[OF assms] unfolding body_calls
    by (auto simp: export_call_def)
  have d: "length (export_calls (calls s')) = 1" if "r = Inr p" for p
    using run_success[of lib w p s'] assms that by (simp add: body_calls)
  from a b c d show ?thesis by blast
qed

theorem one_tokenized_example_input_witness:
  "fst fresh_run = Inr quantized_path \<and>
   length (export_calls (calls (snd fresh_run))) = 1 \<and>
   length (tokenizer_calls (calls (snd fresh_run))) = 1 \<and>
   max_length (hd (tokenizer_calls (calls (snd fresh_run)))) = 512 \<and>
   padding (hd (tokenizer_calls (calls (snd fresh_run)))) \<and>
   truncation (hd (tokenizer_calls (calls (snd fresh_run)))) \<and>
   text_arg (hd (tokenizer_calls (calls (snd fresh_run)))) =
     ''This is a sample sentence for conversion.''"
proof -
  note th = one_tokenized_example_input[OF fresh_run_eq]
  from th have len: "length (export_calls (calls (snd fresh_run))) = 1" by simp
  from hd_in_set_length_one[OF len] th
  have len2: "length (tokenizer_calls (calls (snd fresh_run))) = 1" by blast
  from hd_in_set_length_one[OF len2] th len len2 fresh_run_ok show ?thesis by blast
qed

subsection \<open>C5: the order of the stages\<close>

text \<open>
  C5. Whatever the libraries and the world do, the calls a run makes are an
  initial part of one fixed sequence: directory creation and the two fetches,
  the two saves, then \<open>eval\<close>, the tokenizer and the export, then the
  quantization; a successful run makes all of them. The quantize call takes
  as its input the path string the export call wrote to (a file on disk, not
  an object in memory). Both output paths are reported when the run succeeds,
  that is after the quantization, and are not reported when a call raised.
\<close>

theorem stages_in_fixed_order:
  assumes "download_and_convert lib (initial_state w) = (r, s')"
  shows "prefix (calls s')
           [Path_mkdir output_dir True,
            AutoTokenizer_from_pretrained model_name,
            AutoModel_from_pretrained model_name,
            Tokenizer_save_pretrained output_dir,
            Model_save_pretrained output_dir,
            Model_eval,
            Tokenizer_call inputs_call,
            Torch_onnx_export export_call,
            Quantize_dynamic quantize_call] \<and>
         model_input quantize_call = f export_call \<and>
         f export_call = path_str onnx_path \<and>
         (\<forall>p. r = Inr p \<longrightarrow>
            calls s' =
           [Path_mkdir output_dir True,
            AutoTokenizer_from_pretrained model_name,
            AutoModel_from_pretrained model_name,
            Tokenizer_save_pretrained output_dir,
            Model_save_pretrained output_dir,
            Model_eval,
            Tokenizer_call inputs_call,
            Torch_onnx_export export_call,
            Quantize_dynamic quantize_call] \<and>
            (''  - Full precision: '' @ path_str onnx_path) \<in> set (stdout s') \<and>
            (''  - Quantized: '' @ path_str quantized_path) \<in> set (stdout s')) \<and>
         (\<forall>e. r = Inl e \<longrightarrow>
            (''  - Full precision: '' @ path_str onnx_path) \<notin> set (stdout s') \<and>
            (''  - Quantized: '' @ path_str quantized_path) \<notin> set (stdout s'))"
proof -
  have a: "prefix (calls s')
           [Path_mkdir output_dir True,
            AutoTokenizer_from_pretrained model_name,
            AutoModel_from_pretrained model_name,
            Tokenizer_save_pretrained output_dir,
            Model_save_pretrained output_dir,
            Model_eval,
            Tokenizer_call inputs_call,
            Torch_onnx_export export_call,
            Quantize_dynamic quantize_call]"
    using run_calls_prefix[OF assms] by (simp only: body_calls)
  have b: "model_input quantize_call = f export_call" "f export_call = path_str onnx_path"
    by (simp_all add: quantize_call_def export_call_def)
  have c: "calls s' =
           [Path_mkdir output_dir True,
            AutoTokenizer_from_pretrained model_name,
            AutoModel_from_pretrained model_name,
            Tokenizer_save_pretrained output_dir,
            Model_save_pretrained output_dir,
            Model_eval,
            Tokenizer_call inputs_call,
            Torch_onnx_export export_call,
            Quantize_dynamic quantize_call] \<and>
            (''  - Full precision: '' @ path_str onnx_path) \<in> set (stdout s') \<and>
            (''  - Quantized: '' @ path_str quantized_path) \<in> set (stdout s')"
    if "r = Inr p" for p
  proof -
    from run_success[of lib w p s'] assms that have
      "calls s' = calls_of download_and_convert_body"
      "stdout s' = prints_of download_and_convert_body" by simp_all
    then show ?thesis unfolding body_calls body_prints by (simp add: path_defs)
  qed
  have d: "(''  - Full precision: '' @ path_str onnx_path) \<notin> set (stdout s') \<and>
            (''  - Quantized: '' @ path_str quantized_path) \<notin> set (stdout s')"
    if "r = Inl e" for e
  proof -
    from run_failure[of lib w e s'] assms that obtain pre c where
      h: "(pre, c) \<in> set (stops download_and_convert_body)" "stdout s' = prints_of pre"
      by auto
    from body_stops_prints[OF h(1)] h(2) show ?thesis
      unfolding body_prints by (auto simp: path_defs)
  qed
  from a b c d show ?thesis by blast
qed

theorem stages_in_fixed_order_witness:
  "fst fresh_run = Inr quantized_path \<and>
   calls (snd fresh_run) =
     [Path_mkdir output_dir True,
      AutoTokenizer_from_pretrained model_name,
      AutoModel_from_pretrained model_name,
      Tokenizer_save_pretrained output_dir,
      Model_save_pretrained output_dir,
      Model_eval,
      Tokenizer_call inputs_call,
      Torch_onnx_export export_call,
      Quantize_dynamic quantize_call] \<and>
   (''  - Full precision: '' @ path_str onnx_path) \<in> set (stdout (snd fresh_run)) \<and>
   (''  - Quantized: '' @ path_str quantized_path) \<in> set (stdout (snd fresh_run)) \<and>
   fst offline_run = Inl offline_error \<and>
   (''  - Quantized: '' @ path_str quantized_path) \<notin> set (stdout (snd offline_run))"
proof -
  note th = stages_in_fixed_order[OF fresh_run_eq]
  note th2 = stages_in_fixed_order[OF offline_run_eq]
  from th th2 fresh_run_ok offline_run_fails show ?thesis by blast
qed

subsection \<open>C6: no configuration, same operations in every run\<close>

text \<open>
  C6. The function has no input but the libraries and the world: the model
  identifier, the output directory, the sentence and the quantization scheme
  are constants of its body. So any two runs, even with different library
  behaviour and in different worlds (arguments, environment and files
  included), make call sequences of which one is an initial part of the
  other, and two successful runs return the same path, make the same calls
  with the same arguments and print the same lines.
\<close>

theorem runs_do_the_same_operations:
  assumes "download_and_convert lib1 (initial_state w1) = (r1, s1)"
      and "download_and_convert lib2 (initial_state w2) = (r2, s2)"
  shows "(prefix (calls s1) (calls s2) \<or> prefix (calls s2) (calls s1)) \<and>
         (\<forall>p1 p2. r1 = Inr p1 \<and> r2 = Inr p2 \<longrightarrow>
            p1 = p2 \<and> calls s1 = calls s2 \<and> stdout s1 = stdout s2 \<and> stderr s1 = stderr s2)"
proof -
  have "prefix (calls s1) (calls s2) \<or> prefix (calls s2) (calls s1)"
    using run_calls_prefix[OF assms(1)] run_calls_prefix[OF assms(2)]
    by (rule prefix_same_cases)
  moreover have "p1 = p2 \<and> calls s1 = calls s2 \<and> stdout s1 = stdout s2 \<and> stderr s1 = stderr s2"
    if "r1 = Inr p1" "r2 = Inr p2" for p1 p2
    using run_success[of lib1 w1 p1 s1] run_success[of lib2 w2 p2 s2] assms that by simp
  ultimately show ?thesis by blast
qed

theorem runs_do_the_same_operations_witness:
  "fst fresh_run = Inr quantized_path \<and> fst second_run = Inr quantized_path \<and>
   calls (snd fresh_run) = calls (snd second_run) \<and>
   stdout (snd fresh_run) = stdout (snd second_run) \<and>
   fs fresh_world output_dir \<noteq> fs populated_world output_dir"
proof -
  note th = runs_do_the_same_operations[OF fresh_run_eq second_run_eq]
  have "fs fresh_world output_dir \<noteq> fs populated_world output_dir"
    by (simp add: fresh_world_def populated_world_def path_defs)
  with th fresh_run_ok second_run_ok show ?thesis by blast
qed

subsection \<open>C10: the returned path and the recommended artifact\<close>

text \<open>
  The sentence as written does not hold: in a successful run the line
  \<open>Recommended for Android\<close> shows \<open>quantized_path.name\<close>, the file name
  alone, which is a different path from the one returned.
\<close>

theorem recommended_line_is_not_returned_path:
  "fst fresh_run = Inr quantized_path \<and>
   path_str quantized_path = ''bge-small-onnx/bge-small-en-v1.5-quantized.onnx'' \<and>
   (CHR 0x0A # ''Recommended for Android: '' @ path_str quantized_path)
     \<notin> set (stdout (snd fresh_run)) \<and>
   (CHR 0x0A # ''Recommended for Android: bge-small-en-v1.5-quantized.onnx'')
     \<in> set (stdout (snd fresh_run)) \<and>
   path_of ''bge-small-en-v1.5-quantized.onnx'' \<noteq> quantized_path"
  using fresh_run_ok unfolding fresh_run_stdout body_prints
  by (simp add: path_defs)

text \<open>
  C10, amended. A successful run returns the output directory joined with
  \<open>bge-small-en-v1.5-quantized.onnx\<close>; that full path is printed in the
  lines \<open>Quantized model saved to\<close> and \<open>- Quantized:\<close>, and the final
  \<open>Recommended for Android\<close> line prints the file name of that path.
\<close>

theorem returned_path_and_report:
  assumes "download_and_convert lib (initial_state w) = (Inr p, s')"
  shows "p = path_div output_dir ''bge-small-en-v1.5-quantized.onnx'' \<and>
         path_str p = ''bge-small-onnx/bge-small-en-v1.5-quantized.onnx'' \<and>
         path_name p = ''bge-small-en-v1.5-quantized.onnx'' \<and>
         (''Quantized model saved to '' @ path_str p) \<in> set (stdout s') \<and>
         (''  - Quantized: '' @ path_str p) \<in> set (stdout s') \<and>
         (CHR 0x0A # ''Recommended for Android: '' @ path_name p) \<in> set (stdout s')"
proof -
  from run_success[OF assms] have
    "p = quantized_path" "stdout s' = prints_of download_and_convert_body" by simp_all
  then show ?thesis unfolding body_prints by (simp add: path_defs)
qed

theorem returned_path_and_report_witness:
  "fst fresh_run = Inr quantized_path \<and>
   quantized_path = path_div output_dir ''bge-small-en-v1.5-quantized.onnx'' \<and>
   (''  - Quantized: '' @ path_str quantized_path) \<in> set (stdout (snd fresh_run)) \<and>
   (CHR 0x0A # ''Recommended for Android: '' @ path_name quantized_path)
     \<in> set (stdout (snd fresh_run))"
  using returned_path_and_report[OF fresh_run_eq] fresh_run_ok by blast

subsection \<open>C7: the output directory\<close>

text \<open>
  C7. The first statement, \<open>output_dir.mkdir(exist_ok=True)\<close>, does not
  raise when the output directory is absent or is already a directory: it
  creates the directory when absent and changes nothing else, and leaves the
  world as it is when the directory exists. The run then goes on to the
  fetch, and it returns the quantized path whenever no library call raises,
  so a second run over a populated directory does not crash at the directory
  creation. (What the libraries do to files already there is theirs.)
\<close>

theorem output_directory_created_or_reused:
  assumes "fs w output_dir \<noteq> Some File"
  shows "(\<exists>w1. perform lib (Path_mkdir output_dir True) w = Inr w1 \<and>
              fs w1 output_dir = Some Dir \<and>
              (\<forall>q. q \<noteq> output_dir \<longrightarrow> fs w1 q = fs w q) \<and>
              (fs w output_dir = Some Dir \<longrightarrow> w1 = w)) \<and>
         take 2 (calls (snd (download_and_convert lib (initial_state w)))) =
           [Path_mkdir output_dir True, AutoTokenizer_from_pretrained model_name] \<and>
         ((\<forall>c v. \<exists>v'. lib c v = Inr v') \<longrightarrow>
            fst (download_and_convert lib (initial_state w)) = Inr quantized_path)"
proof -
  define w1 where
    "w1 = (if fs w output_dir = None then w\<lparr>fs := (fs w)(output_dir \<mapsto> Dir)\<rparr> else w)"
  have mk: "perform lib (Path_mkdir output_dir True) w = Inr w1"
    unfolding w1_def by (rule mkdir_output_dir[OF assms])
  have dir: "fs w1 output_dir = Some Dir"
  proof (cases "fs w output_dir")
    case None
    then show ?thesis by (simp add: w1_def)
  next
    case (Some n)
    with assms have "n = Dir" by (cases n) simp_all
    with Some show ?thesis by (simp add: w1_def)
  qed
  have same: "\<forall>q. q \<noteq> output_dir \<longrightarrow> fs w1 q = fs w q"
    by (simp add: w1_def)
  have kept: "fs w output_dir = Some Dir \<longrightarrow> w1 = w"
    by (simp add: w1_def)
  have a: "\<exists>w1. perform lib (Path_mkdir output_dir True) w = Inr w1 \<and>
              fs w1 output_dir = Some Dir \<and>
              (\<forall>q. q \<noteq> output_dir \<longrightarrow> fs w1 q = fs w q) \<and>
              (fs w output_dir = Some Dir \<longrightarrow> w1 = w)"
    using mk dir same kept by blast
  define s1 where
    "s1 = (initial_state w)\<lparr>world := w1, calls := [Path_mkdir output_dir True]\<rparr>"
  have calls1: "calls s1 = [Path_mkdir output_dir True]" "world s1 = w1"
    by (simp_all add: s1_def)
  have hd_body: "download_and_convert_body =
      Call (Path_mkdir output_dir True) # tl download_and_convert_body"
    by (simp add: download_and_convert_body_def)
  have ex: "exec lib download_and_convert_body (initial_state w) =
              exec lib (tl download_and_convert_body) s1"
    using mk by (subst hd_body) (simp add: initial_state_def s1_def)
  have tl_body: "tl download_and_convert_body =
      Print (''Downloading '' @ model_name @ '' from Hugging Face...'') #
      Call (AutoTokenizer_from_pretrained model_name) # drop 3 download_and_convert_body"
    by (simp add: download_and_convert_body_def)
  have b: "take 2 (calls (snd (download_and_convert lib (initial_state w)))) =
           [Path_mkdir output_dir True, AutoTokenizer_from_pretrained model_name]"
  proof -
    have "\<exists>rest. calls (snd (exec lib (tl download_and_convert_body) s1)) =
             Path_mkdir output_dir True # AutoTokenizer_from_pretrained model_name # rest"
    proof (cases "perform lib (AutoTokenizer_from_pretrained model_name) w1")
      case (Inl e)
      then show ?thesis
        by (subst tl_body) (simp add: calls1 print_line_def)
    next
      case (Inr w2)
      define s2 where
        "s2 = (print_line (''Downloading '' @ model_name @ '' from Hugging Face...'') s1)
                \<lparr>world := w2,
                 calls := [Path_mkdir output_dir True, AutoTokenizer_from_pretrained model_name]\<rparr>"
      have "exec lib (tl download_and_convert_body) s1 =
              exec lib (drop 3 download_and_convert_body) s2"
        using Inr by (subst tl_body) (simp add: calls1 print_line_def s2_def)
      moreover have "prefix (calls s2)
          (calls (snd (exec lib (drop 3 download_and_convert_body) s2)))"
        by (rule exec_calls_extend)
      moreover have "calls s2 =
          [Path_mkdir output_dir True, AutoTokenizer_from_pretrained model_name]"
        by (simp add: s2_def)
      ultimately show ?thesis by (auto simp: prefix_def)
    qed
    then show ?thesis using ex by (auto simp: download_and_convert_snd)
  qed
  have c: "fst (download_and_convert lib (initial_state w)) = Inr quantized_path"
    if ok: "\<forall>c v. \<exists>v'. lib c v = Inr v'"
  proof -
    from ok have "fst (exec lib (tl download_and_convert_body) s1) = None"
      by (intro exec_never_raises body_rest_no_mkdir) blast
    with ex show ?thesis by (simp add: download_and_convert_fst)
  qed
  from a b c show ?thesis by blast
qed

theorem output_directory_created_or_reused_witness:
  "fs populated_world output_dir = Some Dir \<and>
   fs populated_world output_dir \<noteq> Some File \<and>
   perform lib_ok (Path_mkdir output_dir True) populated_world = Inr populated_world \<and>
   fst second_run = Inr quantized_path \<and>
   fs fresh_world output_dir = None \<and>
   (\<exists>w1. perform lib_ok (Path_mkdir output_dir True) fresh_world = Inr w1 \<and>
         fs w1 output_dir = Some Dir)"
proof -
  have p: "fs populated_world output_dir = Some Dir"
    by (simp add: populated_world_def path_defs)
  then have h: "fs populated_world output_dir \<noteq> Some File" by simp
  have q: "fs fresh_world output_dir = None" by (simp add: fresh_world_def)
  then have h2: "fs fresh_world output_dir \<noteq> Some File" by simp
  note th = output_directory_created_or_reused[OF h, of lib_ok]
  note th2 = output_directory_created_or_reused[OF h2, of lib_ok]
  from th p have "perform lib_ok (Path_mkdir output_dir True) populated_world =
      Inr populated_world" by auto
  moreover from th lib_ok_never_raises have "fst second_run = Inr quantized_path"
    unfolding second_run_def by blast
  moreover from th2 have "\<exists>w1. perform lib_ok (Path_mkdir output_dir True) fresh_world = Inr w1 \<and>
         fs w1 output_dir = Some Dir" by blast
  ultimately show ?thesis using p h q by blast
qed

subsection \<open>C1: a stage that raises\<close>

text \<open>
  The sentence as written does not hold in its last part: the handler of the
  \<open>__main__\<close> block prints and returns, so no exception leaves the script
  and the interpreter's path for an uncaught exception (its own traceback,
  exit status 1) is not taken. Without a network the fetch raises, and the
  process still ends with exit status 0, the status of a successful run.
\<close>

theorem failed_run_exits_like_a_successful_one:
  "fst offline_run = Inl offline_error \<and>
   fst (main_block lib_offline (initial_state fresh_world)) = Inr () \<and>
   fst (run lib_offline fresh_world) = 0 \<and>
   fst fresh_run = Inr quantized_path \<and>
   fst (run lib_ok fresh_world) = 0"
proof -
  have a: "main_block lib_offline (initial_state fresh_world) =
             (Inr (), print_exc offline_error
                        (print_line (error_message offline_error) (snd offline_run)))"
    using offline_run_eq by (simp add: main_block_def)
  have b: "main_block lib_ok (initial_state fresh_world) =
             (Inr (), print_line success_banner (snd fresh_run))"
    using fresh_run_eq by (simp add: main_block_def)
  from a b offline_run_fails fresh_run_ok show ?thesis
    by (simp add: run_def run_script_def)
qed

text \<open>
  C1, amended. If a call of the pipeline raises an exception \<open>e\<close>, the
  function stops at that call: the statements before it ran, it is the last
  call made, and nothing after it runs. The exception is caught by the one
  handler of the \<open>__main__\<close> block, which prints one error message with
  \<open>str(e)\<close> to standard output and one traceback of \<open>e\<close> to standard
  error; the success banner is not printed. The handler then returns, so the
  script ends normally with exit status 0.
\<close>

theorem failure_is_reported_and_run_ends:
  assumes "download_and_convert lib (initial_state w) = (Inl e, s1)"
  shows "fst (main_block lib (initial_state w)) = Inr () \<and>
         fst (run lib w) = 0 \<and>
         world (snd (run lib w)) = world s1 \<and>
         calls (snd (run lib w)) = calls s1 \<and>
         stdout (snd (run lib w)) = stdout s1 @ [error_message e] \<and>
         error_message e =
           CHR 0x0A # CHR 0xE2 # CHR 0x9D # CHR 0x8C # '' Error during conversion: '' @ exn_msg e \<and>
         stderr (snd (run lib w)) = [e] \<and>
         success_banner \<notin> set (stdout (snd (run lib w))) \<and>
         (\<exists>pre c post s0.
            download_and_convert_body = pre @ Call c # post \<and>
            exec lib pre (initial_state w) = (None, s0) \<and>
            perform lib c (world s0) = Inl e \<and>
            calls s1 = calls_of pre @ [c] \<and>
            stdout s1 = prints_of pre)"
proof -
  have mb: "main_block lib (initial_state w) =
              (Inr (), print_exc e (print_line (error_message e) s1))"
    using assms by (simp add: main_block_def)
  then have rn: "run lib w = (0, print_exc e (print_line (error_message e) s1))"
    by (simp add: run_def run_script_def)
  from assms have "exec lib download_and_convert_body (initial_state w) = (Some e, s1)"
    by (auto simp: download_and_convert_def split: prod.splits option.splits)
  from exec_failure[OF this] obtain pre c post s0 where
    h: "download_and_convert_body = pre @ Call c # post"
       "exec lib pre (initial_state w) = (None, s0)"
       "perform lib c (world s0) = Inl e"
       "s1 = s0\<lparr>calls := calls s0 @ [c]\<rparr>"
    by blast
  from exec_success[OF h(2)] h(4) have
    st: "calls s1 = calls_of pre @ [c]" "stdout s1 = prints_of pre" "stderr s1 = []"
    by (simp_all add: initial_state_def)
  have "set (prints_of pre) \<subseteq> set (prints_of download_and_convert_body)"
    by (subst h(1)) (rule prints_of_prefix_subset)
  with banner_not_in_body st(2) have nb: "success_banner \<notin> set (stdout s1)" by auto
  have last: "\<exists>pre c post s0.
            download_and_convert_body = pre @ Call c # post \<and>
            exec lib pre (initial_state w) = (None, s0) \<and>
            perform lib c (world s0) = Inl e \<and>
            calls s1 = calls_of pre @ [c] \<and>
            stdout s1 = prints_of pre"
    using h(1,2,3) st(1,2) by blast
  have "success_banner \<notin> set (stdout s1 @ [error_message e])"
    using nb banner_not_error[of e] by simp
  with mb rn st(3) last show ?thesis
    by (simp add: print_exc_def print_line_def error_message_def)
qed

theorem failure_is_reported_and_run_ends_witness:
  "fst offline_run = Inl offline_error \<and>
   fst (run lib_offline fresh_world) = 0 \<and>
   calls (snd (run lib_offline fresh_world)) =
     [Path_mkdir output_dir True, AutoTokenizer_from_pretrained model_name] \<and>
   stdout (snd (run lib_offline fresh_world)) =
     [''Downloading BAAI/bge-small-en-v1.5 from Hugging Face...'',
      error_message offline_error] \<and>
   stderr (snd (run lib_offline fresh_world)) = [offline_error] \<and>
   success_banner \<notin> set (stdout (snd (run lib_offline fresh_world)))"
proof -
  note th = failure_is_reported_and_run_ends[OF offline_run_eq]
  have c: "calls (snd offline_run) =
          [Path_mkdir output_dir True, AutoTokenizer_from_pretrained model_name]"
    and p: "stdout (snd offline_run) =
          [''Downloading BAAI/bge-small-en-v1.5 from Hugging Face...'']"
    by (simp_all add: offline_run_def download_and_convert_def download_and_convert_body_def
      initial_state_def fresh_world_def print_line_def path_mkdir_def parent_exists_def
      path_defs model_name_def split: prod.splits)
  from th have 1: "fst (run lib_offline fresh_world) = 0" by blast
  from th have "calls (snd (run lib_offline fresh_world)) = calls (snd offline_run)"
    by blast
  with c have 2: "calls (snd (run lib_offline fresh_world)) =
     [Path_mkdir output_dir True, AutoTokenizer_from_pretrained model_name]"
    by (simp only:)
  from th have "stdout (snd (run lib_offline fresh_world)) =
      stdout (snd offline_run) @ [error_message offline_error]" by blast
  with p have 3: "stdout (snd (run lib_offline fresh_world)) =
     [''Downloading BAAI/bge-small-en-v1.5 from Hugging Face...'',
      error_message offline_error]"
    by (simp only: append.simps)
  from th have 4: "stderr (snd (run lib_offline fresh_world)) = [offline_error]" by blast
  from th have 5: "success_banner \<notin> set (stdout (snd (run lib_offline fresh_world)))"
    by blast
  from offline_run_fails 1 2 3 4 5 show ?thesis by blast
qed

end
